theory Spec2Isabelle
  imports Main
begin

section \<open>Python values and exceptions\<close>

text \<open>
  The exceptions the modelled code can raise. Each carries the text that identifies it:
  the message of an \<open>ImportError\<close>, the attribute or operand of the others, the command
  line of a failed subprocess, the path of a file that already exists or cannot be opened.
\<close>

datatype error =
    ImportError string
  | AttributeError string
  | TypeError string
  | CalledProcessError "string list"
  | FileExistsError string
  | OSError string

section \<open>Import scanner\<close>

text \<open>
  The scanner and the resolver are the second program of the file
  \<open>src/poncho/src/poncho_package_create\<close> (from \<open>scan_pkgs\<close> to the end); the synthesizer
  and the fetcher are its first program; the runner is \<open>src/poncho/src/poncho_package_run\<close>.
\<close>

text \<open>
  The syntax tree as the scanner sees it. \<open>Import names\<close> is \<open>ast.Import\<close> with the
  dotted names of its aliases; \<open>ImportFrom module names level\<close> is \<open>ast.ImportFrom\<close>
  (\<open>module\<close> is \<open>None\<close> for \<open>from . import x\<close>); \<open>FunctionDef name children\<close> is a
  routine definition with its child nodes (arguments, body, decorators); \<open>Module body\<close> is what
  \<open>ast.parse\<close> returns; \<open>Node children\<close> is any other node (class, if, expression, alias,
  \<open>AsyncFunctionDef\<close>, ...), which the scanner only traverses.
\<close>

datatype node =
    Import "string list"
  | ImportFrom "string option" "string list" int
  | FunctionDef string "node list"
  | Module "node list"
  | Node "node list"

text \<open>\<open>ast.iter_child_nodes\<close>: the aliases of an import are leaf nodes of their own.\<close>

fun iter_child_nodes :: "node \<Rightarrow> node list" where
  "iter_child_nodes (Import names) = map (\<lambda>_. Node []) names"
| "iter_child_nodes (ImportFrom m names level) = map (\<lambda>_. Node []) names"
| "iter_child_nodes (FunctionDef name cs) = cs"
| "iter_child_nodes (Module body) = body"
| "iter_child_nodes (Node cs) = cs"

fun nsize :: "node \<Rightarrow> nat" where
  "nsize (Import names) = Suc (length names)"
| "nsize (ImportFrom m names level) = Suc (length names)"
| "nsize (FunctionDef name cs) = Suc (sum_list (map nsize cs))"
| "nsize (Module body) = Suc (sum_list (map nsize body))"
| "nsize (Node cs) = Suc (sum_list (map nsize cs))"

text \<open>
  \<open>ast.walk\<close>: breadth first from a queue; the node taken from the front is yielded and
  its children are appended at the back.
\<close>

function walk :: "node list \<Rightarrow> node list" where
  "walk [] = []"
| "walk (n # todo) = n # walk (todo @ iter_child_nodes n)"
  by pat_completeness auto
termination
proof (relation "measure (\<lambda>todo. sum_list (map nsize todo))")
  show "wf (measure (\<lambda>todo. sum_list (map nsize todo)))" by simp
next
  fix n :: node and todo :: "node list"
  have "sum_list (map nsize (iter_child_nodes n)) < nsize n"
    by (cases n) (simp_all add: comp_def sum_list_triv)
  then show "(todo @ iter_child_nodes n, n # todo) \<in> measure (\<lambda>todo. sum_list (map nsize todo))"
    by simp
qed

definition startswith :: "string \<Rightarrow> string \<Rightarrow> bool" where
  \<comment> \<open>\<open>s.startswith(p)\<close>\<close>
  "startswith s p = (take (length p) s = p)"

definition unsupported_msg :: "string \<Rightarrow> string" where
  "unsupported_msg pkg = ''On '' @ pkg @ '', imports from the current module are not supported''"

definition strip_dots :: "string \<Rightarrow> error + string" where
  "strip_dots pkg =
     (if startswith pkg ''.'' then Inl (ImportError (unsupported_msg pkg))
      else Inr (takeWhile (\<lambda>c. c \<noteq> CHR ''.'') pkg))"

text \<open>The loop \<open>for a in stmt.names: imports.append(strip_dots(a.name))\<close>.\<close>

fun strip_all :: "string list \<Rightarrow> error + string list" where
  "strip_all [] = Inr []"
| "strip_all (a # as) =
     (case strip_dots a of
        Inl e \<Rightarrow> Inl e
      | Inr x \<Rightarrow> (case strip_all as of Inl e \<Rightarrow> Inl e | Inr xs \<Rightarrow> Inr (x # xs)))"

text \<open>
  \<open>stmt.module or '.'\<close> takes the dot for \<open>None\<close> and for the empty string. At level 0 a
  module of \<open>None\<close> (which the parser never produces) reaches \<open>None.startswith\<close>.
\<close>

fun get_stmt_imports :: "node \<Rightarrow> error + string list" where
  "get_stmt_imports (Import names) = strip_all names"
| "get_stmt_imports (ImportFrom m names level) =
     (if level \<noteq> 0 then
        Inl (ImportError (unsupported_msg
          (case m of None \<Rightarrow> ''.'' | Some x \<Rightarrow> if x = [] then ''.'' else x)))
      else (case m of
              None \<Rightarrow> Inl (AttributeError ''startswith'')
            | Some x \<Rightarrow> (case strip_dots x of Inl e \<Rightarrow> Inl e | Inr y \<Rightarrow> Inr [y])))"
| "get_stmt_imports _ = Inr []"

text \<open>The loop \<open>for stmt in ...: deps += get_stmt_imports(stmt)\<close>, stopped by the first raise.\<close>

fun collect :: "node list \<Rightarrow> error + string list" where
  "collect [] = Inr []"
| "collect (s # ss) =
     (case get_stmt_imports s of
        Inl e \<Rightarrow> Inl e
      | Inr xs \<Rightarrow> (case collect ss of Inl e \<Rightarrow> Inl e | Inr ys \<Rightarrow> Inr (xs @ ys)))"

text \<open>
  \<open>analyze_toplevel\<close> reads \<open>module.body\<close>; the main program passes it the result of
  \<open>ast.parse\<close>, a \<open>Module\<close>. The other nodes of this model expose no \<open>body\<close> field.
\<close>

fun analyze_toplevel :: "node \<Rightarrow> error + string list" where
  "analyze_toplevel (Module body) = collect body"
| "analyze_toplevel _ = Inl (AttributeError ''body'')"

definition analyze_full :: "node \<Rightarrow> error + string list" where
  "analyze_full module = collect (walk [module])"

text \<open>
  \<open>analyze_function\<close> returns from inside the loop at the first matching routine; when the
  loop ends without a match the function falls off its end, and Python returns \<open>None\<close>.
  The result is \<open>Some deps\<close> for a list and \<open>None\<close> for Python's \<open>None\<close>.
\<close>

fun is_function_named :: "string \<Rightarrow> node \<Rightarrow> bool" where
  "is_function_named func_name (FunctionDef name cs) = (name = func_name)"
| "is_function_named func_name _ = False"

definition analyze_function :: "node \<Rightarrow> string \<Rightarrow> error + string list option" where
  "analyze_function module func_name =
     (case find (is_function_named func_name) (walk [module]) of
        None \<Rightarrow> Inr None
      | Some stmt \<Rightarrow> (case analyze_full stmt of Inl e \<Rightarrow> Inl e | Inr deps \<Rightarrow> Inr (Some deps)))"

text \<open>
  The scope options of the command line and the loop of the main program over the parsed
  sources: \<open>imports += analyze_...(code)\<close>. \<open>elif args.function\<close> is false for an absent
  option and for the empty string. \<open>imports += None\<close> raises \<open>TypeError\<close>.
\<close>

record scan_args =
  toplevel :: bool
  func :: "string option"

definition scan_source :: "scan_args \<Rightarrow> node \<Rightarrow> error + string list option" where
  "scan_source args code =
     (if toplevel args then map_sum id Some (analyze_toplevel code)
      else (case func args of
              Some f \<Rightarrow> if f \<noteq> [] then analyze_function code f
                        else map_sum id Some (analyze_full code)
            | None \<Rightarrow> map_sum id Some (analyze_full code)))"

fun scan_sources :: "scan_args \<Rightarrow> string list \<Rightarrow> node list \<Rightarrow> error + string list" where
  "scan_sources args imports [] = Inr imports"
| "scan_sources args imports (code # rest) =
     (case scan_source args code of
        Inl e \<Rightarrow> Inl e
      | Inr None \<Rightarrow> Inl (TypeError ''NoneType object is not iterable'')
      | Inr (Some deps) \<Rightarrow> scan_sources args (imports @ deps) rest)"

text \<open>Predicates used to state the scanner's properties.\<close>

definition is_import_error :: "error + 'a \<Rightarrow> bool" where
  "is_import_error r = (case r of Inl (ImportError msg) \<Rightarrow> True | _ \<Rightarrow> False)"

text \<open>
  A node the parser can produce: \<open>from import x\<close> is not Python, so an \<open>ImportFrom\<close>
  without a module has a level of at least one.
\<close>

fun from_parser :: "node \<Rightarrow> bool" where
  "from_parser (ImportFrom None names level) = (level \<noteq> 0)"
| "from_parser _ = True"

section \<open>Package resolver\<close>

text \<open>
  \<open>choose_dep\<close> adds to \<open>conda_pkgs\<close> the first entry of the conda listing that starts with
  \<open>pkg=\<close>, else to \<open>pip_pkgs\<close> the first such entry of the pip listing; with neither it
  raises when \<open>required\<close>. The two result sets are passed in and returned as a pair.
\<close>

definition no_match_msg :: "string \<Rightarrow> string" where
  "no_match_msg pkg = ''Couldn'' @ [CHR 0x27] @ ''t match '' @ pkg @ '' to a conda/pip package''"

definition choose_dep ::
  "string list \<Rightarrow> string list \<Rightarrow> string set \<times> string set \<Rightarrow> string \<Rightarrow> bool
     \<Rightarrow> error + string set \<times> string set" where
  "choose_dep conda_env pip_env pkgs pkg required =
     (case find (\<lambda>a. startswith a (pkg @ ''='')) conda_env of
        Some a \<Rightarrow> Inr (insert a (fst pkgs), snd pkgs)
      | None \<Rightarrow>
          (case find (\<lambda>a. startswith a (pkg @ ''='')) pip_env of
             Some a \<Rightarrow> Inr (fst pkgs, insert a (snd pkgs))
           | None \<Rightarrow> if required then Inl (ImportError (no_match_msg pkg)) else Inr pkgs))"

text \<open>
  \<open>search_pkg\<close>. The interpreter's \<open>sys.builtin_module_names\<close>, the global \<open>PKG_MAP\<close> that
  \<open>scan_pkgs\<close> fills, and \<open>importlib.import_module(pkg).__file__\<close> are parameters:
  \<open>module_file pkg\<close> is the error the import (or the attribute access) raises, or the
  value of \<open>__file__\<close>, which can be \<open>None\<close>. \<open>PKG_MAP.get(file, pkg)\<close> falls back to the
  literal name. The \<open>except ImportError\<close> catches what \<open>choose_dep\<close> raises.
\<close>

definition search_pkg ::
  "string list \<Rightarrow> (string \<rightharpoonup> string) \<Rightarrow> (string \<Rightarrow> error + string option)
     \<Rightarrow> (string \<rightharpoonup> string) \<Rightarrow> string list \<Rightarrow> string list \<Rightarrow> string set \<times> string set
     \<Rightarrow> string \<Rightarrow> error + string set \<times> string set" where
  "search_pkg builtin_module_names PKG_MAP module_file overrides conda_env pip_env pkgs pkg =
     (if pkg \<in> set builtin_module_names then Inr pkgs
      else (case overrides pkg of
              Some name \<Rightarrow> choose_dep conda_env pip_env pkgs name True
            | None \<Rightarrow>
                (case choose_dep conda_env pip_env pkgs pkg True of
                   Inr pkgs' \<Rightarrow> Inr pkgs'
                 | Inl (ImportError msg) \<Rightarrow>
                     (case module_file pkg of
                        Inl e \<Rightarrow> Inl e
                      | Inr file \<Rightarrow>
                          choose_dep conda_env pip_env pkgs
                            (case file of
                               None \<Rightarrow> pkg
                             | Some f \<Rightarrow> (case PKG_MAP f of None \<Rightarrow> pkg | Some owner \<Rightarrow> owner))
                            True)
                 | Inl e \<Rightarrow> Inl e)))"

section \<open>Spec synthesizer\<close>

text \<open>
  The poncho specification as \<open>json.load\<close> returns it: every section is optional. A git
  entry has an optional remote and ref, an http entry an optional type, compression and url.
  The \<open>git\<close> and \<open>http\<close> objects are association lists, in the order of the document.
\<close>

record conda_section =
  conda_channels :: "string list option"
  conda_packages :: "string list option"

record git_entry =
  remote :: "string option"
  ref :: "string option"

record http_entry =
  file_type :: "string option"
  compression :: "string option"
  url :: "string option"

record poncho_spec =
  conda :: "conda_section option"
  pip :: "string list option"
  git :: "(string \<times> git_entry) list option"
  http :: "(string \<times> http_entry) list option"

text \<open>
  The conda specification that \<open>create_conda_spec\<close> returns. \<open>conda_spec['dependencies']\<close>
  is a list: the constraint strings left in the conda set, as \<open>list(set)\<close> gives them,
  followed by the dictionary \<open>{'pip': list(pip_pkgs)}\<close>. The order in which Python iterates
  a set of strings follows their hashes and is not fixed, so the two collections are sets
  here: \<open>dependencies\<close> holds the strings of the list and \<open>dependencies_pip\<close> the strings
  under \<open>'pip'\<close> in its last element.
\<close>

record conda_spec =
  channels :: "string list"
  dependencies :: "string set"
  dependencies_pip :: "string set"
  name :: string
  pip_local :: "string \<rightharpoonup> string"

text \<open>
  \<open>re.sub("[!~=<>].*$", "", dep)\<close>. The leftmost match starts at the first version
  character after which the string has no newline other than a last one (\<open>.\<close> does not match
  a newline, \<open>$\<close> matches at the end and before a final newline); the match runs to the end,
  or to that final newline, and is deleted.
\<close>

fun only_name :: "string \<Rightarrow> string" where
  "only_name [] = []"
| "only_name (c # cs) =
     (if c \<in> set ''!~=<>'' \<and> CHR 0x0A \<notin> set (butlast cs)
      then (if cs \<noteq> [] \<and> last cs = CHR 0x0A then [CHR 0x0A] else [])
      else c # only_name cs)"

text \<open>
  The loop \<open>for dep in list(deps): ...\<close> over a copy of the set: a dependency whose name
  is a key of \<open>local_pip_pkgs\<close> is removed from the set and its name added to
  \<open>local_reqs\<close>. The list \<open>todo\<close> is the copy, in the order Python happens to give it.
\<close>

fun move_local ::
  "(string \<rightharpoonup> string) \<Rightarrow> string list \<Rightarrow> string set \<times> string set \<Rightarrow> string set \<times> string set" where
  "move_local local_pip_pkgs [] (deps, local_reqs) = (deps, local_reqs)"
| "move_local local_pip_pkgs (dep # todo) (deps, local_reqs) =
     (if local_pip_pkgs (only_name dep) \<noteq> None
      then move_local local_pip_pkgs todo (deps - {dep}, insert (only_name dep) local_reqs)
      else move_local local_pip_pkgs todo (deps, local_reqs))"

text \<open>
  \<open>create_conda_spec\<close>. \<open>conda_spec['dependencies']\<close> starts as a set and becomes a list
  only inside \<open>if 'conda' in poncho_spec\<close>; without that section the later
  \<open>conda_spec['dependencies'].append\<close> is applied to a set and raises \<open>AttributeError\<close>.
  \<open>pip_local\<close> is the dictionary \<open>{name: local_pip_pkgs[name] for name in local_reqs}\<close>.
  Each loop visits every element of its set once; the model visits them in the order of the
  document, and \<open>move_local_order\<close> below shows that the order makes no difference.
\<close>

definition create_conda_spec :: "poncho_spec \<Rightarrow> (string \<rightharpoonup> string) \<Rightarrow> error + conda_spec" where
  "create_conda_spec poncho_spec local_pip_pkgs =
     (case conda poncho_spec of
        None \<Rightarrow> Inl (AttributeError ''append'')
      | Some c \<Rightarrow>
          (let packages = (case conda_packages c of None \<Rightarrow> [] | Some ps \<Rightarrow> ps);
               (deps, local_reqs) = move_local local_pip_pkgs (remdups packages) (set packages, {});
               pips = (case pip poncho_spec of None \<Rightarrow> [] | Some ps \<Rightarrow> ps);
               (pip_pkgs, local_reqs') = move_local local_pip_pkgs (remdups pips) (set pips, local_reqs)
           in Inr \<lparr>channels = (case conda_channels c of
                                  None \<Rightarrow> [''conda-forge'', ''defaults'']
                                | Some chs \<Rightarrow> chs),
                   dependencies = deps,
                   dependencies_pip = pip_pkgs,
                   name = ''base'',
                   pip_local = local_pip_pkgs |` local_reqs'\<rparr>))"

text \<open>The dependencies an input specification declares, of both origins.\<close>

definition declared :: "poncho_spec \<Rightarrow> string set" where
  "declared poncho_spec =
     (case conda poncho_spec of
        None \<Rightarrow> {}
      | Some c \<Rightarrow> (case conda_packages c of None \<Rightarrow> {} | Some ps \<Rightarrow> set ps)) \<union>
     (case pip poncho_spec of None \<Rightarrow> {} | Some ps \<Rightarrow> set ps)"

section \<open>External data fetcher\<close>

text \<open>
  The fetcher works on the build directory through subprocesses and \<open>os\<close> calls. The state
  of a packaging run is the directory tree as a map from path to kind of entry (paths are
  opaque keys; what an extraction or a clone puts below its directory is not listed), the
  lines appended so far to the activation-hook script \<open>poncho/set_env\<close>, and the
  subprocess calls made, in order.
\<close>

datatype fnode = File | Dir

datatype command =
    Curl string string
  | TarX bool string string
  | Gunzip string
  | GitClone string string

text \<open>The argument vector the source passes to \<open>subprocess.check_call\<close> for each command.\<close>

fun argv :: "command \<Rightarrow> string list" where
  "argv (Curl u out) = [''curl'', u, ''--output'', out]"
| "argv (TarX True archive dir) = [''tar'', ''-xzf'', archive, ''-C'', dir]"
| "argv (TarX False archive dir) = [''tar'', ''-xf'', archive, ''-C'', dir]"
| "argv (Gunzip gz) = [''gzip'', ''-d'', gz]"
| "argv (GitClone repo path) = [''git'', ''clone'', repo, path]"

record build =
  fs :: "string \<rightharpoonup> fnode"
  set_env :: "string list"
  calls :: "command list"

text \<open>
  What a command that exits with status 0 leaves in the tree: curl writes its output file,
  a clone creates its directory, \<open>gzip -d\<close> replaces \<open>f.gz\<close> by \<open>f\<close>, and \<open>tar -x\<close> fills a
  directory that exists already and leaves the archive where it is.
\<close>

fun effect :: "command \<Rightarrow> (string \<rightharpoonup> fnode) \<Rightarrow> (string \<rightharpoonup> fnode)" where
  "effect (Curl u out) t = t(out \<mapsto> File)"
| "effect (TarX z archive dir) t = t"
| "effect (Gunzip gz) t = (t(gz := None))(take (length gz - 3) gz \<mapsto> File)"
| "effect (GitClone repo path) t = t(path \<mapsto> Dir)"

text \<open>
  \<open>subprocess.check_call\<close>: whether the external program succeeds is a parameter
  (\<open>tools\<close>); a non-zero exit raises \<open>CalledProcessError\<close>.
\<close>

definition check_call :: "(command \<Rightarrow> bool) \<Rightarrow> command \<Rightarrow> build \<Rightarrow> error + build" where
  "check_call tools cmd st =
     (if tools cmd then Inr (st\<lparr>fs := effect cmd (fs st), calls := calls st @ [cmd]\<rparr>)
      else Inl (CalledProcessError (argv cmd)))"

definition mkdir :: "string \<Rightarrow> build \<Rightarrow> error + build" where
  \<comment> \<open>\<open>os.mkdir\<close>\<close>
  "mkdir path st =
     (if fs st path \<noteq> None then Inl (FileExistsError path)
      else Inr (st\<lparr>fs := (fs st)(path \<mapsto> Dir)\<rparr>))"

definition and_then :: "error + 'a \<Rightarrow> ('a \<Rightarrow> error + 'b) \<Rightarrow> error + 'b" where
  \<comment> \<open>sequencing of statements: an exception skips what follows\<close>
  "and_then r f = (case r of Inl e \<Rightarrow> Inl e | Inr x \<Rightarrow> f x)"

definition export_line :: "string \<Rightarrow> string" where
  \<comment> \<open>\<open>'export {}=$1/{}\n'.format(n, n)\<close>\<close>
  "export_line n = ''export '' @ n @ ''=$1/'' @ n @ [CHR 0x0A]"

text \<open>
  The end of both loop bodies: create \<open>out_dir/poncho\<close> unless something exists there, and
  append the export line to \<open>out_dir/poncho/set_env\<close>. Opening the script for append fails
  when \<open>poncho\<close> is a plain file or the script path is a directory.
\<close>

definition add_to_script :: "string \<Rightarrow> string \<Rightarrow> build \<Rightarrow> error + build" where
  "add_to_script out_dir n st =
     (let poncho = out_dir @ ''/poncho'';
          script = out_dir @ ''/poncho/set_env'';
          st1 = (if fs st poncho = None then st\<lparr>fs := (fs st)(poncho \<mapsto> Dir)\<rparr> else st)
      in if fs st1 poncho \<noteq> Some Dir \<or> fs st1 script = Some Dir then Inl (OSError script)
         else Inr (st1\<lparr>fs := (fs st1)(script \<mapsto> File),
                       set_env := set_env st1 @ [export_line n]\<rparr>))"

text \<open>
  The body of the loop of \<open>git_data\<close>. \<open>if git_repo:\<close> is false for an absent remote and
  for the empty string. The declared ref is read and not used.
\<close>

definition git_item :: "(command \<Rightarrow> bool) \<Rightarrow> string \<Rightarrow> string \<Rightarrow> git_entry \<Rightarrow> build \<Rightarrow> error + build" where
  "git_item tools out_dir git_dir e st =
     (case remote e of
        None \<Rightarrow> Inr st
      | Some git_repo \<Rightarrow>
          if git_repo \<noteq> [] then
            (let path = out_dir @ ''/'' @ git_dir in
             and_then (check_call tools (GitClone git_repo path) st)
               (add_to_script out_dir git_dir))
          else Inr st)"

text \<open>The body of the loop of \<open>http_data\<close>: the four variants of (type, compression).\<close>

definition http_item :: "(command \<Rightarrow> bool) \<Rightarrow> string \<Rightarrow> string \<Rightarrow> http_entry \<Rightarrow> build \<Rightarrow> error + build" where
  "http_item tools out_dir filename e st =
     (case url e of
        None \<Rightarrow> Inr st
      | Some u \<Rightarrow>
          if u \<noteq> [] then
            (let path = out_dir @ ''/'' @ filename in
             and_then
               (if file_type e = Some ''tar'' \<and> compression e = Some ''gzip'' then
                  (let tgz = path @ ''.tar.gz'' in
                   and_then (check_call tools (Curl u tgz) st) (\<lambda>st.
                   and_then (mkdir path st)
                     (check_call tools (TarX True tgz path))))
                else if file_type e = Some ''tar'' then
                  (let tar = path @ ''.tar'' in
                   and_then (check_call tools (Curl u tar) st) (\<lambda>st.
                   and_then (mkdir path st)
                     (check_call tools (TarX False tar path))))
                else if compression e = Some ''gzip'' then
                  (let gz = path @ ''.gz'' in
                   and_then (check_call tools (Curl u gz) st)
                     (check_call tools (Gunzip gz)))
                else check_call tools (Curl u path) st)
               (add_to_script out_dir filename))
          else Inr st)"

text \<open>
  The loops over the entries of the \<open>git\<close> and \<open>http\<close> objects, in the order of the document,
  stopped by the first exception.
\<close>

fun git_loop :: "(command \<Rightarrow> bool) \<Rightarrow> string \<Rightarrow> (string \<times> git_entry) list \<Rightarrow> build \<Rightarrow> error + build" where
  "git_loop tools out_dir [] st = Inr st"
| "git_loop tools out_dir ((git_dir, e) # rest) st =
     and_then (git_item tools out_dir git_dir e st) (git_loop tools out_dir rest)"

fun http_loop :: "(command \<Rightarrow> bool) \<Rightarrow> string \<Rightarrow> (string \<times> http_entry) list \<Rightarrow> build \<Rightarrow> error + build" where
  "http_loop tools out_dir [] st = Inr st"
| "http_loop tools out_dir ((filename, e) # rest) st =
     and_then (http_item tools out_dir filename e st) (http_loop tools out_dir rest)"

definition git_data :: "(command \<Rightarrow> bool) \<Rightarrow> poncho_spec \<Rightarrow> string \<Rightarrow> build \<Rightarrow> error + build" where
  "git_data tools data out_dir st =
     (case git data of None \<Rightarrow> Inr st | Some entries \<Rightarrow> git_loop tools out_dir entries st)"

definition http_data :: "(command \<Rightarrow> bool) \<Rightarrow> poncho_spec \<Rightarrow> string \<Rightarrow> build \<Rightarrow> error + build" where
  "http_data tools data out_dir st =
     (case http data of None \<Rightarrow> Inr st | Some entries \<Rightarrow> http_loop tools out_dir entries st)"

section \<open>Locked unpack-execute runner\<close>

subsection \<open>The unpack script\<close>

text \<open>
  The target directory \<open>UNPACK_TO\<close>, as far as the unpack script reads and writes it:
  whether the archive has been extracted into it, whether \<open>conda-unpack\<close> has relocated it,
  and whether the marker file \<open>.poncho_package_run_expanded\<close> exists.
\<close>

record target =
  extracted :: bool
  relocated :: bool
  marker :: bool

text \<open>What the script runs, with the outcome of the two programs that can fail.\<close>

datatype action = Tar bool | CondaUnpack bool | WriteMarker

text \<open>
  \<open>UNTAR_SCRIPT\<close>, the script written by the here-document and run under the lock. Whether
  \<open>tar\<close> and \<open>conda-unpack\<close> succeed are parameters. The result is the exit status, the
  target directory afterwards and the actions in the order they ran. The directory counts as
  extracted only after a \<open>tar\<close> that succeeded; what a failed \<open>tar\<close> leaves behind is not
  recorded. The redirection that writes the marker is taken to succeed.
\<close>

definition untar_script :: "bool \<Rightarrow> bool \<Rightarrow> target \<Rightarrow> nat \<times> target \<times> action list" where
  "untar_script tar_ok unpack_ok t =
     (if \<not> marker t then
        (if \<not> tar_ok then (1, t, [Tar False])
         else if \<not> unpack_ok then (1, t\<lparr>extracted := True\<rparr>, [Tar True, CondaUnpack False])
         else (0, t\<lparr>extracted := True, relocated := True, marker := True\<rparr>,
               [Tar True, CondaUnpack True, WriteMarker]))
      else (0, t, []))"

subsection \<open>Arguments\<close>

record opts =
  UNPACK_TO :: string
  ENV_NAME :: string
  LOCK_WAIT :: string
  debug :: bool

text \<open>
  The \<open>while\<close> loop of \<open>parse_arguments\<close> over the positional parameters. \<open>None\<close> is the
  \<open>exit 0\<close> of the two help options; otherwise the options read and the parameters left.
  An option that takes a value and stands last reads the empty string.
\<close>

fun parse_loop :: "opts \<Rightarrow> string list \<Rightarrow> (opts \<times> string list) option" where
  "parse_loop os [] = Some (os, [])"
| "parse_loop os (a # rest) =
     (if a = ''-h'' \<or> a = ''--help'' then None
      else if startswith a ''--help-env'' then None
      else if a = ''-u'' \<or> a = ''--unpack-to'' then
        (case rest of [] \<Rightarrow> Some (os\<lparr>UNPACK_TO := []\<rparr>, [])
         | v # rest' \<Rightarrow> parse_loop (os\<lparr>UNPACK_TO := v\<rparr>) rest')
      else if a = ''-d'' \<or> a = ''--debug'' then parse_loop (os\<lparr>debug := True\<rparr>) rest
      else if a = ''-e'' \<or> a = ''--environment'' then
        (case rest of [] \<Rightarrow> Some (os\<lparr>ENV_NAME := []\<rparr>, [])
         | v # rest' \<Rightarrow> parse_loop (os\<lparr>ENV_NAME := v\<rparr>) rest')
      else if a = ''-w'' \<or> a = ''--wait-for-lock'' then
        (case rest of [] \<Rightarrow> Some (os\<lparr>LOCK_WAIT := []\<rparr>, [])
         | v # rest' \<Rightarrow> parse_loop (os\<lparr>LOCK_WAIT := v\<rparr>) rest')
      else if a = ''--'' then Some (os, rest)
      else Some (os, a # rest))"

text \<open>
  \<open>parse_arguments\<close> and the \<open>shift\<close> after it. The function returns the number of
  parameters it consumed as its status, which the shell keeps modulo 256; the caller shifts
  by that status, and what is left is the command line.
\<close>

datatype parsed = ExitHelp | ExitUsage | Parsed opts "string list"

definition parse_arguments :: "string list \<Rightarrow> parsed" where
  "parse_arguments args =
     (case parse_loop \<lparr>UNPACK_TO = [], ENV_NAME = [], LOCK_WAIT = ''300'', debug = False\<rparr> args of
        None \<Rightarrow> ExitHelp
      | Some (os, left) \<Rightarrow>
          if ENV_NAME os = [] then ExitUsage
          else if length left < 1 then ExitUsage
          else Parsed os (drop ((length args - length left) mod 256) args))"

subsection \<open>The run\<close>

text \<open>
  What the runner gets from the machine it runs on: its process id, the file tests, the
  directory \<open>mktemp -d\<close> creates, \<open>realpath\<close>, what \<open>flock\<close> does with the wait it is given,
  the target directory as the unpack script finds it once locked, whether \<open>tar\<close> and
  \<open>conda-unpack\<close> succeed, what sourcing \<open>bin/activate\<close> does in an environment, what sourcing
  the bundled \<open>poncho/set_env\<close> with the target directory as argument does (\<open>None\<close> when no
  such file exists), and the exit status of a command line run in an environment.

  \<open>flock\<close> is handed the text of \<open>--wait-for-lock\<close> as the caller wrote it. It obtains the
  lock and runs the unpack script, or gives up when the wait has expired, or fails by itself
  with a status of its own and without running the script (a wait it cannot read, a
  directory it cannot open).

  A sourced script runs inside the runner's own shell. It comes back with a status and the
  environment it leaves, or it calls \<open>exit\<close>, which ends the runner there and then with the
  status given to \<open>exit\<close>.
\<close>

datatype lock_result = Acquired | TimedOut | Refused nat

datatype sourced = Returns nat "string \<rightharpoonup> string" | Exits nat

record world =
  pid :: string
  is_dir :: "string \<Rightarrow> bool"
  is_file :: "string \<Rightarrow> bool"
  mktemp_d :: string
  realpath :: "string \<Rightarrow> string"
  lock :: "string \<Rightarrow> lock_result"
  found :: target
  tar_ok :: bool
  unpack_ok :: bool
  activate :: "(string \<rightharpoonup> string) \<Rightarrow> sourced"
  poncho_set_env :: "(string \<Rightarrow> (string \<rightharpoonup> string) \<Rightarrow> sourced) option"
  run_command :: "string list \<Rightarrow> (string \<rightharpoonup> string) \<Rightarrow> nat"

text \<open>
  How a run ends: with the help text, in one of the failures the runner reports before the
  command, inside a sourced script that called \<open>exit\<close>, or with the command executed. The
  runner has one message for a lock that was not obtained in time and one for every other
  non-zero status of \<open>flock\<close>; the second is told apart here by what ran: a failed
  extraction, a failed relocation, or nothing, when \<open>flock\<close> itself failed. The outcome keeps
  the exit code, the actions of the unpack script, the environment handed to the activation
  (when it is reached) and the command line with the environment it ran in (when it is
  reached).
\<close>

datatype failure =
    BadArguments | LockTimeout | FlockFailure | ExtractionFailure | RelocationFailure
  | ActivationFailure

datatype ending = Help | Failed failure | SourcedExit nat | Executed

record outcome =
  exit_code :: nat
  ending :: ending
  unpacking :: "action list"
  activated_in :: "(string \<rightharpoonup> string) option"
  executed :: "(string list \<times> (string \<rightharpoonup> string)) option"

definition stop :: "nat \<Rightarrow> ending \<Rightarrow> action list \<Rightarrow> outcome" where
  "stop code how acts =
     \<lparr>exit_code = code, ending = how, unpacking = acts, activated_in = None, executed = None\<rparr>"

text \<open>
  \<open>flock -E 222 -w LOCK_WAIT UNPACK_TO -c "/bin/bash UNTAR_SCRIPT"\<close>: status 222 when the
  lock is not obtained in time, the status of \<open>flock\<close>'s own failure when it has one, else the
  status of the script.
\<close>

definition flock :: "world \<Rightarrow> string \<Rightarrow> nat \<times> action list" where
  "flock w wait =
     (case lock w wait of
        TimedOut \<Rightarrow> (222, [])
      | Refused status \<Rightarrow> (status, [])
      | Acquired \<Rightarrow>
          (case untar_script (tar_ok w) (unpack_ok w) (found w) of
             (status, t, acts) \<Rightarrow> (status, acts)))"

text \<open>
  From \<open>unset PYTHONPATH\<close> to the final \<open>exit $status\<close>: activation, the hook script, the
  command. The status of the activation is tested; the status of the hook script is not.
\<close>

definition activate_and_run ::
  "world \<Rightarrow> string \<Rightarrow> string list \<Rightarrow> action list \<Rightarrow> (string \<rightharpoonup> string) \<Rightarrow> outcome" where
  "activate_and_run w unpack_to command acts env =
     (let env1 = env(''PYTHONPATH'' := None) in
      case activate w env1 of
        Exits n \<Rightarrow> (stop n (SourcedExit n) acts)\<lparr>activated_in := Some env1\<rparr>
      | Returns status env2 \<Rightarrow>
          if status \<noteq> 0
          then (stop 1 (Failed ActivationFailure) acts)\<lparr>activated_in := Some env1\<rparr>
          else
            (case (case poncho_set_env w of
                     None \<Rightarrow> Returns 0 env2
                   | Some hook \<Rightarrow> hook unpack_to env2) of
               Exits n \<Rightarrow> (stop n (SourcedExit n) acts)\<lparr>activated_in := Some env1\<rparr>
             | Returns hook_status env3 \<Rightarrow>
                 (let status = run_command w command env3
                  in \<lparr>exit_code = status, ending = Executed, unpacking = acts,
                       activated_in = Some env1, executed = Some (command, env3)\<rparr>)))"

text \<open>
  The script from its first line to its exit. The variables \<open>ORIGINAL_PID\<close> and, with
  \<open>-d\<close>, \<open>PONCHO_PACKAGE_RUN_DEBUG\<close> are exported before anything else runs.
\<close>

definition runner :: "world \<Rightarrow> string list \<Rightarrow> (string \<rightharpoonup> string) \<Rightarrow> outcome" where
  "runner w args env =
     (case parse_arguments args of
        ExitHelp \<Rightarrow> stop 0 Help []
      | ExitUsage \<Rightarrow> stop 1 (Failed BadArguments) []
      | Parsed os command \<Rightarrow>
          (let env1 = env(''ORIGINAL_PID'' \<mapsto> pid w);
               env2 = (if debug os then env1(''PONCHO_PACKAGE_RUN_DEBUG'' \<mapsto> ''yes'') else env1);
               ENV_NAME_IS_DIR = is_dir w (ENV_NAME os);
               unpack_to = (if ENV_NAME_IS_DIR then ENV_NAME os else UNPACK_TO os);
               unpack_to = (if unpack_to = [] then mktemp_d w else unpack_to);
               unpack_to = realpath w unpack_to
           in if is_file w unpack_to then stop 1 (Failed BadArguments) []
              else if \<not> ENV_NAME_IS_DIR then
                (case flock w (LOCK_WAIT os) of
                   (status, acts) \<Rightarrow>
                     if status \<noteq> 0 then
                       (if status = 222 then stop 1 (Failed LockTimeout) acts
                        else if Tar False \<in> set acts then stop 1 (Failed ExtractionFailure) acts
                        else if CondaUnpack False \<in> set acts
                        then stop 1 (Failed RelocationFailure) acts
                        else stop 1 (Failed FlockFailure) acts)
                     else activate_and_run w unpack_to command acts env2)
              else activate_and_run w unpack_to command [] env2))"

text \<open>A machine and a command line for concrete runs.\<close>

definition sample_world :: world where
  "sample_world =
     \<lparr>pid = ''4242'', is_dir = (\<lambda>p. False), is_file = (\<lambda>p. False), mktemp_d = ''/tmp/tmp.Xa1'',
      realpath = (\<lambda>p. p),
      lock = (\<lambda>wait. if wait = ''300'' then Acquired else Refused 64),
      found = \<lparr>extracted = False, relocated = False, marker = False\<rparr>,
      tar_ok = True, unpack_ok = True,
      activate = (\<lambda>env. Returns 0 (env(''CONDA_PREFIX'' \<mapsto> ''/srv/env''))),
      poncho_set_env = Some (\<lambda>dir env. Returns 0 (env(''data'' \<mapsto> dir @ ''/data''))),
      run_command = (\<lambda>argv env. if env ''PYTHONPATH'' = None then 7 else 9)\<rparr>"

definition sample_args :: "string list" where
  "sample_args = [''-e'', ''env.tar.gz'', ''-u'', ''/srv/env'', ''--'', ''python'', ''-c'', ''pass'']"

subsection \<open>Concurrent runs on one target directory\<close>

text \<open>
  Several runners started on the same archive and the same \<open>--unpack-to\<close> directory, each
  with its own \<open>--wait-for-lock\<close> text. Each is at one of the points of the script below;
  between two points it does one thing. The directory and the lock on it are shared, and
  only these runners take that lock. \<open>flock\<close> reads the wait first: a text it cannot use
  makes it fail at once, with a status of its own and without running the script. Otherwise
  it gives the lock to one process at a time: a process at \<open>AtAcquireLock\<close> goes on only when
  nobody holds the lock, and its wait can expire only while somebody does. From
  \<open>AtCheckMarker\<close> to \<open>AtReleaseLock\<close> a process is inside the unpack script, which \<open>flock\<close>
  runs while holding the lock; \<open>AtActivate\<close> stands for activation, hooks and the command,
  which only read the directory.
\<close>

datatype pc =
    AtAcquireLock | AtCheckMarker | AtExtract | AtRelocate | AtWriteMarker | AtReleaseLock
  | AtActivate | Exited

record proc =
  wait :: string
  at :: pc
  result :: nat
  ran :: "action list"

record system =
  holder :: "nat option"
  dir :: target
  procs :: "proc list"

datatype event = Step nat | Timeout nat

definition init :: "string list \<Rightarrow> system" where
  \<comment> \<open>one runner for each wait, before its \<open>flock\<close>; a fresh directory\<close>
  "init waits =
     \<lparr>holder = None, dir = \<lparr>extracted = False, relocated = False, marker = False\<rparr>,
      procs = map (\<lambda>w. \<lparr>wait = w, at = AtAcquireLock, result = 0, ran = []\<rparr>) waits\<rparr>"

text \<open>
  One step of process \<open>i\<close>, following the runner and the unpack script line by line; an event
  that is not possible in a state leaves it as it is. \<open>wait_error\<close> gives the status with
  which \<open>flock\<close> fails on a wait it cannot use, \<open>None\<close> for a wait it accepts; whether \<open>tar\<close>
  and the relocation command succeed are the other two parameters. The result is the status
  \<open>flock\<close> ends with: that of the script (0 or 1), 222 for a wait that expired, or that of
  its own failure. The runner goes on to the activation only with status 0.
\<close>

definition step_proc :: "(string \<Rightarrow> nat option) \<Rightarrow> bool \<Rightarrow> bool \<Rightarrow> nat \<Rightarrow> system \<Rightarrow> system" where
  "step_proc wait_error tar_good unpack_good i s =
     (let p = procs s ! i in
      case at p of
        AtAcquireLock \<Rightarrow>
          (case wait_error (wait p) of
             Some status \<Rightarrow>
               s\<lparr>procs := (procs s)[i := p\<lparr>at := (if status = 0 then AtActivate else Exited),
                                                result := status\<rparr>]\<rparr>
           | None \<Rightarrow>
               if holder s = None
               then s\<lparr>holder := Some i, procs := (procs s)[i := p\<lparr>at := AtCheckMarker\<rparr>]\<rparr>
               else s)
      | AtCheckMarker \<Rightarrow>
          if \<not> marker (dir s)
          then s\<lparr>procs := (procs s)[i := p\<lparr>at := AtExtract\<rparr>]\<rparr>
          else s\<lparr>procs := (procs s)[i := p\<lparr>at := AtReleaseLock, result := 0\<rparr>]\<rparr>
      | AtExtract \<Rightarrow>
          if \<not> tar_good
          then s\<lparr>procs := (procs s)[i := p\<lparr>at := AtReleaseLock, result := 1,
                                           ran := ran p @ [Tar False]\<rparr>]\<rparr>
          else s\<lparr>dir := (dir s)\<lparr>extracted := True\<rparr>,
                 procs := (procs s)[i := p\<lparr>at := AtRelocate, ran := ran p @ [Tar True]\<rparr>]\<rparr>
      | AtRelocate \<Rightarrow>
          if \<not> unpack_good
          then s\<lparr>procs := (procs s)[i := p\<lparr>at := AtReleaseLock, result := 1,
                                           ran := ran p @ [CondaUnpack False]\<rparr>]\<rparr>
          else s\<lparr>dir := (dir s)\<lparr>relocated := True\<rparr>,
                 procs := (procs s)[i := p\<lparr>at := AtWriteMarker,
                                           ran := ran p @ [CondaUnpack True]\<rparr>]\<rparr>
      | AtWriteMarker \<Rightarrow>
          s\<lparr>dir := (dir s)\<lparr>marker := True\<rparr>,
            procs := (procs s)[i := p\<lparr>at := AtReleaseLock, result := 0,
                                      ran := ran p @ [WriteMarker]\<rparr>]\<rparr>
      | AtReleaseLock \<Rightarrow>
          s\<lparr>holder := None,
            procs := (procs s)[i := p\<lparr>at := (if result p = 0 then AtActivate else Exited)\<rparr>]\<rparr>
      | AtActivate \<Rightarrow> s\<lparr>procs := (procs s)[i := p\<lparr>at := Exited\<rparr>]\<rparr>
      | Exited \<Rightarrow> s)"

definition step :: "(string \<Rightarrow> nat option) \<Rightarrow> bool \<Rightarrow> bool \<Rightarrow> system \<Rightarrow> event \<Rightarrow> system" where
  "step wait_error tar_good unpack_good s ev =
     (case ev of
        Step i \<Rightarrow>
          if i < length (procs s) then step_proc wait_error tar_good unpack_good i s else s
      | Timeout i \<Rightarrow>
          if i < length (procs s) \<and> at (procs s ! i) = AtAcquireLock \<and>
             wait_error (wait (procs s ! i)) = None \<and> holder s \<noteq> None
          then s\<lparr>procs := (procs s)[i := (procs s ! i)\<lparr>at := Exited, result := 222\<rparr>]\<rparr>
          else s)"

definition run ::
  "(string \<Rightarrow> nat option) \<Rightarrow> bool \<Rightarrow> bool \<Rightarrow> event list \<Rightarrow> system \<Rightarrow> system" where
  \<comment> \<open>a schedule: the events in the order they happen\<close>
  "run wait_error tar_good unpack_good evs s = foldl (step wait_error tar_good unpack_good) s evs"




subsection \<open>Invariants of concurrent runs\<close>

















section \<open>Properties of the import scanner\<close>

lemma strip_dots_error: "strip_dots a = Inl e \<Longrightarrow> is_import_error (Inl e :: error + 'a)"
  by (auto simp: strip_dots_def is_import_error_def split: if_splits)

lemma strip_all_error: "strip_all as = Inl e \<Longrightarrow> is_import_error (Inl e :: error + 'a)"
  by (induction as) (auto split: sum.splits dest: strip_dots_error)

lemma get_stmt_imports_error:
  "from_parser s \<Longrightarrow> get_stmt_imports s = Inl e \<Longrightarrow> is_import_error (Inl e :: error + 'a)"
proof (cases s)
  case (Import names)
  assume "get_stmt_imports s = Inl e"
  with Import show ?thesis by (auto dest: strip_all_error)
next
  case (ImportFrom m names level)
  assume "from_parser s" "get_stmt_imports s = Inl e"
  with ImportFrom show ?thesis
    by (cases m) (auto simp: is_import_error_def strip_dots_def split: if_splits sum.splits)
qed simp_all

lemma collect_raises:
  "s \<in> set ss \<Longrightarrow> get_stmt_imports s = Inl e \<Longrightarrow> \<exists>e'. collect ss = Inl e'"
  by (induction ss) (auto split: sum.splits)

lemma collect_error:
  "collect ss = Inl e \<Longrightarrow> \<exists>s\<in>set ss. get_stmt_imports s = Inl e"
  by (induction ss arbitrary: e) (auto split: sum.splits)

lemma collect_import_error:
  assumes "s \<in> set ss" and "get_stmt_imports s = Inl e" and "\<forall>t\<in>set ss. from_parser t"
  shows "is_import_error (collect ss)"
proof -
  from collect_raises [OF assms(1,2)] obtain e' where e': "collect ss = Inl e'" by blast
  from collect_error [OF e'] obtain t where "t \<in> set ss" "get_stmt_imports t = Inl e'" by blast
  with assms(3) have "is_import_error (Inl e' :: error + string list)"
    using get_stmt_imports_error by blast
  with e' show ?thesis by simp
qed

text \<open>
  Claim C3. A from-import whose relative level is greater than zero makes
  \<open>get_stmt_imports\<close> raise \<open>ImportError\<close>, whatever its module and names. The raise
  reaches the caller in each scan scope: when the statement is among the statements the scope
  visits (the module body for top-level, the breadth-first walk of the module for the whole
  program, the walk of the first routine of the given name for a named routine) and the tree
  comes from the parser, the scan ends in an \<open>ImportError\<close>.
\<close>

theorem relative_import_raises:
  assumes "0 < level" and "s = ImportFrom m names level"
  shows "get_stmt_imports s =
           Inl (ImportError (unsupported_msg
             (case m of None \<Rightarrow> ''.'' | Some x \<Rightarrow> if x = [] then ''.'' else x))) \<and>
         (s \<in> set body \<and> (\<forall>t\<in>set body. from_parser t) \<longrightarrow>
            is_import_error (analyze_toplevel (Module body))) \<and>
         (s \<in> set (walk [code]) \<and> (\<forall>t\<in>set (walk [code]). from_parser t) \<longrightarrow>
            is_import_error (analyze_full code)) \<and>
         (find (is_function_named f) (walk [code]) = Some fd \<and> s \<in> set (walk [fd]) \<and>
            (\<forall>t\<in>set (walk [fd]). from_parser t) \<longrightarrow>
            is_import_error (analyze_function code f))"
proof -
  have raise: "get_stmt_imports s =
           Inl (ImportError (unsupported_msg
             (case m of None \<Rightarrow> ''.'' | Some x \<Rightarrow> if x = [] then ''.'' else x)))"
    using assms by simp
  have full: "is_import_error (analyze_full c)"
    if "s \<in> set (walk [c])" "\<forall>t\<in>set (walk [c]). from_parser t" for c
    unfolding analyze_full_def using collect_import_error [OF that(1) raise that(2)] .
  have fn: "is_import_error (analyze_function code f)"
    if "find (is_function_named f) (walk [code]) = Some fd" "s \<in> set (walk [fd])"
       "\<forall>t\<in>set (walk [fd]). from_parser t"
    using full [OF that(2,3)] that(1)
    by (auto simp: analyze_function_def is_import_error_def split: sum.splits)
  show ?thesis
    using raise full fn collect_import_error [OF _ raise, of body] by auto
qed

theorem relative_import_raises_witness:
  "(0::int) < 2 \<and>
   get_stmt_imports (ImportFrom None [''x''] 2) =
     Inl (ImportError ''On ., imports from the current module are not supported'') \<and>
   is_import_error (analyze_toplevel (Module [Import [''os''], ImportFrom None [''x''] 2])) \<and>
   is_import_error (analyze_full
      (Module [FunctionDef ''f'' [Import [''os.path''], ImportFrom None [''x''] 2]])) \<and>
   is_import_error (analyze_function
      (Module [FunctionDef ''f'' [Import [''os.path''], ImportFrom None [''x''] 2]]) ''f'')"
  using relative_import_raises [of 2 "ImportFrom None [''x''] 2" None "[''x'']"
      "[Import [''os''], ImportFrom None [''x''] 2]"
      "Module [FunctionDef ''f'' [Import [''os.path''], ImportFrom None [''x''] 2]]"
      "''f''"  "FunctionDef ''f'' [Import [''os.path''], ImportFrom None [''x''] 2]"]
  by (simp add: unsupported_msg_def)

lemma analyze_function_no_match:
  "find (is_function_named f) (walk [code]) = None \<Longrightarrow> analyze_function code f = Inr None"
  by (simp add: analyze_function_def)

lemma scan_sources_no_match:
  assumes "find (is_function_named f) (walk [code]) = None" and "f \<noteq> []"
  shows "scan_sources \<lparr>toplevel = False, func = Some f\<rparr> imports (code # rest) =
           Inl (TypeError ''NoneType object is not iterable'')"
  using assms by (simp add: scan_source_def analyze_function_no_match)

text \<open>
  Claim C4. A module that defines no routine named \<open>main\<close>, scanned with the named-routine
  scope for \<open>main\<close>: \<open>analyze_function\<close> returns Python's \<open>None\<close> (not an empty list), and
  the main program's \<open>imports += None\<close> raises \<open>TypeError\<close>, so the scan ends in an error
  instead of yielding no identifiers.
\<close>

theorem missing_routine_is_type_error:
  "analyze_function (Module [Import [''os'']]) ''main'' = Inr None \<and>
   scan_sources \<lparr>toplevel = False, func = Some ''main''\<rparr> [] [Module [Import [''os'']]] =
     Inl (TypeError ''NoneType object is not iterable'')"
  by (simp add: analyze_function_def scan_source_def)

section \<open>Properties of the package resolver\<close>

lemma choose_dep_cases:
  "choose_dep conda_env pip_env pkgs pkg_name True = r \<Longrightarrow>
   (case r of
      Inr (c, p) \<Rightarrow>
        (\<exists>a. startswith a (pkg_name @ ''='') \<and>
           ((a \<in> set conda_env \<and> c = insert a (fst pkgs) \<and> p = snd pkgs) \<or>
            (a \<in> set pip_env \<and> c = fst pkgs \<and> p = insert a (snd pkgs))))
    | Inl e \<Rightarrow> e = ImportError (no_match_msg pkg_name) \<and>
        (\<forall>a\<in>set conda_env \<union> set pip_env. \<not> startswith a (pkg_name @ ''='')))"
proof -
  have S: "P a \<and> a \<in> set xs" if "find P xs = Some a" for P and a :: string and xs
    using that by (induction xs) (auto split: if_splits)
  assume r: "choose_dep conda_env pip_env pkgs pkg_name True = r"
  show ?thesis
  proof (cases "find (\<lambda>a. startswith a (pkg_name @ ''='')) conda_env")
    case (Some a)
    with r S [OF Some] show ?thesis by (auto simp: choose_dep_def)
  next
    case None
    note n1 = this
    show ?thesis
    proof (cases "find (\<lambda>a. startswith a (pkg_name @ ''='')) pip_env")
      case (Some a)
      with r n1 S [OF Some] show ?thesis by (auto simp: choose_dep_def)
    next
      case None
      with r n1 show ?thesis by (auto simp: choose_dep_def find_None_iff)
    qed
  qed
qed

text \<open>
  Claim C5. For an identifier that is not a built-in module and has an entry in the override
  map, \<open>search_pkg\<close> is \<open>choose_dep\<close> on the override's package name: the result
  adds the first installed entry that starts with that name and \<open>=\<close> (conda listing before
  pip listing), or is the \<open>ImportError\<close> for that name when no entry does. Entries named
  after the identifier itself, the file-ownership index and the module's file play no part:
  the result is the same for every index and every import outcome, and it is a function of
  the listings and the override map.
\<close>

theorem override_takes_precedence:
  assumes "pkg \<notin> set builtin_module_names" and "overrides pkg = Some pkg_name"
  shows "search_pkg builtin_module_names PKG_MAP module_file overrides conda_env pip_env pkgs pkg =
           choose_dep conda_env pip_env pkgs pkg_name True \<and>
         search_pkg builtin_module_names PKG_MAP module_file overrides conda_env pip_env pkgs pkg =
           search_pkg builtin_module_names PKG_MAP' module_file' overrides conda_env pip_env pkgs pkg \<and>
         (case search_pkg builtin_module_names PKG_MAP module_file overrides conda_env pip_env pkgs pkg of
            Inr (c, p) \<Rightarrow>
              (\<exists>a. startswith a (pkg_name @ ''='') \<and>
                 ((a \<in> set conda_env \<and> c = insert a (fst pkgs) \<and> p = snd pkgs) \<or>
                  (a \<in> set pip_env \<and> c = fst pkgs \<and> p = insert a (snd pkgs))))
          | Inl e \<Rightarrow> e = ImportError (no_match_msg pkg_name) \<and>
              (\<forall>a\<in>set conda_env \<union> set pip_env. \<not> startswith a (pkg_name @ ''='')))"
proof -
  have eq: "search_pkg builtin_module_names M F overrides conda_env pip_env pkgs pkg =
           choose_dep conda_env pip_env pkgs pkg_name True" for M F
    using assms by (simp add: search_pkg_def)
  show ?thesis
    using choose_dep_cases [where conda_env = conda_env and pip_env = pip_env and pkgs = pkgs
        and pkg_name = pkg_name, OF refl] by (simp add: eq)
qed

theorem override_takes_precedence_witness:
  "''yaml'' \<notin> set [''sys'', ''time''] \<and> [''yaml'' \<mapsto> ''pyyaml''] ''yaml'' = Some ''pyyaml'' \<and>
   search_pkg [''sys'', ''time''] [''/env/yaml/__init__.py'' \<mapsto> ''yaml'']
      (\<lambda>m. Inr (Some ''/env/yaml/__init__.py'')) [''yaml'' \<mapsto> ''pyyaml'']
      [''yaml=0.2.5=h7f98852_2'', ''pyyaml=5.4.1=py39h3811e60_0''] [] ({}, {}) ''yaml'' =
     Inr ({''pyyaml=5.4.1=py39h3811e60_0''}, {})"
  using override_takes_precedence [where pkg = "''yaml''" and builtin_module_names = "[''sys'', ''time'']"
      and overrides = "[''yaml'' \<mapsto> ''pyyaml'']" and pkg_name = "''pyyaml''"
      and PKG_MAP = "[''/env/yaml/__init__.py'' \<mapsto> ''yaml'']"
      and module_file = "\<lambda>m. Inr (Some ''/env/yaml/__init__.py'')"
      and conda_env = "[''yaml=0.2.5=h7f98852_2'', ''pyyaml=5.4.1=py39h3811e60_0'']"
      and pip_env = "[]" and pkgs = "({}, {})"]
  by (simp add: choose_dep_def startswith_def)

section \<open>Properties of the spec synthesizer\<close>

text \<open>
  On a constraint without a newline the substitution keeps the text before the first of the
  characters \<open>!~=<>\<close>: blanks before that character stay in the name.
\<close>

lemma only_name_plain:
  "CHR 0x0A \<notin> set d \<Longrightarrow> only_name d = takeWhile (\<lambda>c. c \<notin> set ''!~=<>'') d"
proof (induction d)
  case Nil
  show ?case by simp
next
  case (Cons c cs)
  then have n: "CHR 0x0A \<notin> set cs" by simp
  then have b: "CHR 0x0A \<notin> set (butlast cs)" by (auto dest: in_set_butlastD)
  from n have l: "cs \<noteq> [] \<Longrightarrow> last cs \<noteq> CHR 0x0A" by (metis last_in_set)
  show ?case
  proof (cases "c \<in> set ''!~=<>''")
    case True
    with b l show ?thesis by auto
  next
    case False
    with Cons.IH [OF n] show ?thesis by simp
  qed
qed

lemma move_local_result:
  "move_local L todo (deps, reqs) =
     (deps - {d \<in> set todo. L (only_name d) \<noteq> None},
      reqs \<union> only_name ` {d \<in> set todo. L (only_name d) \<noteq> None})"
  by (induction todo arbitrary: deps reqs) auto

lemma move_local_order:
  "set todo = set todo' \<Longrightarrow> move_local L todo (deps, reqs) = move_local L todo' (deps, reqs)"
  by (simp add: move_local_result)

lemma create_conda_spec_result:
  assumes "create_conda_spec spec L = Inr cs"
  shows "dependencies cs \<subseteq> {d \<in> declared spec. L (only_name d) = None}"
    and "dependencies_pip cs \<subseteq> {d \<in> declared spec. L (only_name d) = None}"
    and "dom (pip_local cs) = only_name ` {d \<in> declared spec. L (only_name d) \<noteq> None}"
    and "\<And>n. n \<in> dom (pip_local cs) \<Longrightarrow> pip_local cs n = L n"
proof -
  from assms obtain c where c: "conda spec = Some c"
    by (auto simp: create_conda_spec_def split: option.splits)
  define ps where "ps = (case conda_packages c of None \<Rightarrow> [] | Some ps \<Rightarrow> ps)"
  define qs where "qs = (case pip spec of None \<Rightarrow> [] | Some ps \<Rightarrow> ps)"
  define moved where "moved = only_name ` {d \<in> set ps. L (only_name d) \<noteq> None} \<union>
                               only_name ` {d \<in> set qs. L (only_name d) \<noteq> None}"
  from assms c have cs: "dependencies cs = set ps - {d \<in> set ps. L (only_name d) \<noteq> None}"
      "dependencies_pip cs = set qs - {d \<in> set qs. L (only_name d) \<noteq> None}"
      "pip_local cs = L |` moved"
    by (auto simp: create_conda_spec_def ps_def qs_def moved_def move_local_result Let_def)
  have d: "declared spec = set ps \<union> set qs"
    using c by (simp add: declared_def ps_def qs_def split: option.splits)
  show "dependencies cs \<subseteq> {d \<in> declared spec. L (only_name d) = None}"
    by (auto simp: cs d)
  show "dependencies_pip cs \<subseteq> {d \<in> declared spec. L (only_name d) = None}"
    by (auto simp: cs d)
  have r: "moved = only_name ` {d \<in> declared spec. L (only_name d) \<noteq> None}"
    by (auto simp: d moved_def)
  show "dom (pip_local cs) = only_name ` {d \<in> declared spec. L (only_name d) \<noteq> None}"
    unfolding r [symmetric] by (auto simp: cs moved_def restrict_map_def dom_def split: if_splits)
  show "\<And>n. n \<in> dom (pip_local cs) \<Longrightarrow> pip_local cs n = L n"
    by (auto simp: cs restrict_map_def split: if_splits)
qed

text \<open>
  What the synthesizer does guarantee, with names as \<open>only_name\<close> computes them: it returns a
  specification whenever the input has a conda section, and in what it returns a declared
  constraint whose \<open>only_name\<close> is a key of the editable index has that key in
  \<open>pip_local\<close> and is in neither collection, and no constraint left has an \<open>only_name\<close>
  that is in \<open>pip_local\<close>.
\<close>

lemma reclassified_by_only_name:
  "(conda spec \<noteq> None \<longrightarrow> (\<exists>cs. create_conda_spec spec L = Inr cs)) \<and>
   (\<forall>cs. create_conda_spec spec L = Inr cs \<longrightarrow>
      (\<forall>d\<in>declared spec. L (only_name d) \<noteq> None \<longrightarrow>
         pip_local cs (only_name d) = L (only_name d) \<and>
         d \<notin> dependencies cs \<and> d \<notin> dependencies_pip cs) \<and>
      (\<forall>d\<in>dependencies cs \<union> dependencies_pip cs. pip_local cs (only_name d) = None))"
proof (intro conjI allI impI)
  assume "conda spec \<noteq> None"
  then show "\<exists>cs. create_conda_spec spec L = Inr cs"
    by (auto simp: create_conda_spec_def Let_def split: prod.splits)
next
  fix cs
  assume r: "create_conda_spec spec L = Inr cs"
  note R = create_conda_spec_result [OF r]
  show "\<forall>d\<in>declared spec. L (only_name d) \<noteq> None \<longrightarrow>
         pip_local cs (only_name d) = L (only_name d) \<and>
         d \<notin> dependencies cs \<and> d \<notin> dependencies_pip cs"
  proof (intro ballI impI)
    fix d
    assume d: "d \<in> declared spec" "L (only_name d) \<noteq> None"
    then have "only_name d \<in> dom (pip_local cs)" using R(3) by auto
    then have "pip_local cs (only_name d) = L (only_name d)" by (rule R(4))
    moreover have "d \<notin> dependencies cs" using R(1) d(2) by auto
    moreover have "d \<notin> dependencies_pip cs" using R(2) d(2) by auto
    ultimately show "pip_local cs (only_name d) = L (only_name d) \<and>
         d \<notin> dependencies cs \<and> d \<notin> dependencies_pip cs" by simp
  qed
  show "\<forall>d\<in>dependencies cs \<union> dependencies_pip cs. pip_local cs (only_name d) = None"
  proof
    fix d
    assume "d \<in> dependencies cs \<union> dependencies_pip cs"
    then have n: "L (only_name d) = None" using R(1,2) by auto
    show "pip_local cs (only_name d) = None"
    proof (rule ccontr)
      assume "pip_local cs (only_name d) \<noteq> None"
      then have "only_name d \<in> dom (pip_local cs)" by auto
      from R(4) [OF this] n this show False by auto
    qed
  qed
qed

text \<open>
  Claim C6. A specification that declares the conda package \<open>mylib=1.0\<close> and the pip
  constraint \<open>mylib >=1.0\<close> (a blank before the operator, as pip and conda accept), with
  \<open>mylib\<close> installed editable: the substitution that the code comments as removing the
  version leaves \<open>mylib\<close> with the blank, which is not a key of the index. The conda package
  is moved to \<open>pip_local\<close> and the pip constraint on the same package stays in the pip
  list: a name in \<open>pip_local\<close> is still a pip dependency, and a declared dependency whose
  name is in the index has not been removed from its list.
\<close>

theorem blank_before_version_not_reclassified:
  "only_name ''mylib >=1.0'' = ''mylib '' \<and>
   (case create_conda_spec
           \<lparr>conda = Some \<lparr>conda_channels = None, conda_packages = Some [''mylib=1.0'']\<rparr>,
            pip = Some [''mylib >=1.0''], git = None, http = None\<rparr>
           [''mylib'' \<mapsto> ''/home/u/mylib''] of
      Inl e \<Rightarrow> None
    | Inr cs \<Rightarrow> Some (pip_local cs ''mylib'', dependencies cs, dependencies_pip cs)) =
     Some (Some ''/home/u/mylib'', {}, {''mylib >=1.0''})"
  by (simp add: create_conda_spec_def)

section \<open>Properties of the external data fetcher\<close>

lemma and_then_Inr: "and_then r f = Inr y \<longleftrightarrow> (\<exists>x. r = Inr x \<and> f x = Inr y)"
  by (cases r) (simp_all add: and_then_def)

lemma check_call_Inr:
  "check_call tools cmd st = Inr st' \<longleftrightarrow>
     tools cmd \<and> st' = st\<lparr>fs := effect cmd (fs st), calls := calls st @ [cmd]\<rparr>"
  by (auto simp: check_call_def)

lemma mkdir_Inr:
  "mkdir path st = Inr st' \<longleftrightarrow> fs st path = None \<and> st' = st\<lparr>fs := (fs st)(path \<mapsto> Dir)\<rparr>"
  by (auto simp: mkdir_def)

lemma add_to_script_Inr:
  assumes "add_to_script out_dir n st = Inr st'"
  shows "calls st' = calls st" and "set_env st' = set_env st @ [export_line n]"
    and "fs st' (out_dir @ ''/poncho/set_env'') = Some File"
    and "fs st' (out_dir @ ''/poncho'') = Some Dir"
    and "\<And>p. p \<noteq> out_dir @ ''/poncho/set_env'' \<Longrightarrow> p \<noteq> out_dir @ ''/poncho'' \<Longrightarrow> fs st' p = fs st p"
    and "\<And>p. fs st p = Some Dir \<Longrightarrow> fs st' p = Some Dir"
  using assms by (auto simp: add_to_script_def Let_def split: if_splits)

lemma tgz_not_script: "out_dir @ ''/'' @ n @ ''.tar.gz'' \<noteq> out_dir @ ''/poncho/set_env''"
proof
  assume "out_dir @ ''/'' @ n @ ''.tar.gz'' = out_dir @ ''/poncho/set_env''"
  then have "last (out_dir @ ''/'' @ n @ ''.tar.gz'') = last (out_dir @ ''/poncho/set_env'')" by simp
  then show False by simp
qed

lemma tgz_not_poncho: "out_dir @ ''/'' @ n @ ''.tar.gz'' \<noteq> out_dir @ ''/poncho''"
proof
  assume "out_dir @ ''/'' @ n @ ''.tar.gz'' = out_dir @ ''/poncho''"
  then have "last (out_dir @ ''/'' @ n @ ''.tar.gz'') = last (out_dir @ ''/poncho'')" by simp
  then show False by simp
qed

text \<open>
  Claim C7, as the code has it. For an http entry with a non-empty url, type \<open>tar\<close> and
  compression \<open>gzip\<close>: when curl and tar succeed, nothing exists yet at the entry's path
  and the hook script can be opened, the fetch returns; and whenever it returns it has run
  exactly curl (writing \<open>out_dir/name.tar.gz\<close>) and then \<open>tar -xzf\<close> into the directory
  \<open>out_dir/name\<close>, which it created, it has appended the export line of the entry, and the
  downloaded archive is still in place as \<open>out_dir/name.tar.gz\<close>.
\<close>

theorem http_tar_gzip_fetch:
  assumes "url e = Some u" and "u \<noteq> []"
    and "file_type e = Some ''tar''" and "compression e = Some ''gzip''"
  shows "(tools (Curl u (out_dir @ ''/'' @ n @ ''.tar.gz'')) \<and>
          tools (TarX True (out_dir @ ''/'' @ n @ ''.tar.gz'') (out_dir @ ''/'' @ n)) \<and>
          fs st (out_dir @ ''/'' @ n) = None \<and> fs st (out_dir @ ''/poncho'') \<noteq> Some File \<and>
          fs st (out_dir @ ''/poncho/set_env'') \<noteq> Some Dir \<and> n \<noteq> ''poncho/set_env''
            \<longrightarrow> (\<exists>st'. http_item tools out_dir n e st = Inr st')) \<and>
         (\<forall>st'. http_item tools out_dir n e st = Inr st' \<longrightarrow>
            calls st' = calls st @ [Curl u (out_dir @ ''/'' @ n @ ''.tar.gz''),
                                   TarX True (out_dir @ ''/'' @ n @ ''.tar.gz'') (out_dir @ ''/'' @ n)] \<and>
            fs st' (out_dir @ ''/'' @ n) = Some Dir \<and>
            fs st' (out_dir @ ''/'' @ n @ ''.tar.gz'') = Some File \<and>
            set_env st' = set_env st @ [export_line n])"
proof (intro conjI allI impI)
  let ?path = "out_dir @ ''/'' @ n" and ?tgz = "out_dir @ ''/'' @ n @ ''.tar.gz''"
  assume ok: "tools (Curl u ?tgz) \<and> tools (TarX True ?tgz ?path) \<and>
          fs st ?path = None \<and> fs st (out_dir @ ''/poncho'') \<noteq> Some File \<and>
          fs st (out_dir @ ''/poncho/set_env'') \<noteq> Some Dir \<and> n \<noteq> ''poncho/set_env''"
  have ne: "?path \<noteq> ?tgz" "?tgz \<noteq> out_dir @ ''/poncho''" "?tgz \<noteq> out_dir @ ''/poncho/set_env''"
      "?path \<noteq> out_dir @ ''/poncho/set_env''"
    using tgz_not_poncho [of out_dir n] tgz_not_script [of out_dir n] ok by simp_all
  have ex: "y = Dir" if "y \<noteq> File" for y
    using that by (cases y) simp_all
  show "\<exists>st'. http_item tools out_dir n e st = Inr st'"
    using assms ok ne
    by (auto dest: ex simp: http_item_def and_then_def check_call_def mkdir_def add_to_script_def Let_def)
next
  fix st'
  let ?path = "out_dir @ ''/'' @ n" and ?tgz = "out_dir @ ''/'' @ n @ ''.tar.gz''"
  assume r: "http_item tools out_dir n e st = Inr st'"
  from r assms obtain st3 where
    st3: "st3 = st\<lparr>fs := (fs st)(?tgz \<mapsto> File, ?path \<mapsto> Dir),
                    calls := calls st @ [Curl u ?tgz, TarX True ?tgz ?path]\<rparr>"
    and a: "add_to_script out_dir n st3 = Inr st'"
    by (auto simp: http_item_def Let_def and_then_Inr check_call_Inr mkdir_Inr)
  note A = add_to_script_Inr [OF a]
  have p: "?path \<noteq> ?tgz" by simp
  show "calls st' = calls st @ [Curl u ?tgz, TarX True ?tgz ?path]"
    using A(1) by (simp add: st3)
  show "fs st' ?path = Some Dir"
    using A(6) [of ?path] by (simp add: st3)
  show "fs st' ?tgz = Some File"
    using A(5) [OF tgz_not_script tgz_not_poncho, of n] p by (simp add: st3)
  show "set_env st' = set_env st @ [export_line n]"
    using A(2) by (simp add: st3)
qed

theorem http_tar_gzip_fetch_witness:
  "(case http_item (\<lambda>c. True) ''/tmp/env'' ''data''
           \<lparr>file_type = Some ''tar'', compression = Some ''gzip'', url = Some ''https://host/d.tar.gz''\<rparr>
           \<lparr>fs = [''/tmp/env'' \<mapsto> Dir], set_env = [], calls = []\<rparr> of
      Inl e \<Rightarrow> None
    | Inr st \<Rightarrow> Some (calls st, fs st ''/tmp/env/data'', fs st ''/tmp/env/data.tar.gz'', set_env st)) =
   Some ([Curl ''https://host/d.tar.gz'' ''/tmp/env/data.tar.gz'',
          TarX True ''/tmp/env/data.tar.gz'' ''/tmp/env/data''],
         Some Dir, Some File, [export_line ''data''])"
  using http_tar_gzip_fetch [where e = "\<lparr>file_type = Some ''tar'', compression = Some ''gzip'', url = Some ''https://host/d.tar.gz''\<rparr>"
      and u = "''https://host/d.tar.gz''" and tools = "\<lambda>c. True" and out_dir = "''/tmp/env''"
      and n = "''data''" and st = "\<lparr>fs = [''/tmp/env'' \<mapsto> Dir], set_env = [], calls = []\<rparr>"]
  by (auto split: sum.splits)

text \<open>
  The downloaded archive is not discarded: after a successful fetch of a tar+gzip entry the
  file \<open>data.tar.gz\<close> is in the build directory, and the only subprocesses were curl and tar.
\<close>

theorem raw_archive_kept:
  "(case http_item (\<lambda>c. True) ''/tmp/env'' ''data''
           \<lparr>file_type = Some ''tar'', compression = Some ''gzip'', url = Some ''https://host/d.tar.gz''\<rparr>
           \<lparr>fs = [''/tmp/env'' \<mapsto> Dir], set_env = [], calls = []\<rparr> of
      Inl e \<Rightarrow> None
    | Inr st \<Rightarrow> Some (fs st ''/tmp/env/data.tar.gz'', calls st)) =
   Some (Some File, [Curl ''https://host/d.tar.gz'' ''/tmp/env/data.tar.gz'',
                     TarX True ''/tmp/env/data.tar.gz'' ''/tmp/env/data''])"
  by (simp add: http_item_def and_then_def check_call_def mkdir_def add_to_script_def Let_def)

lemma git_loop_append:
  "git_loop tools out_dir (xs @ ys) st = and_then (git_loop tools out_dir xs st) (git_loop tools out_dir ys)"
  by (induction xs arbitrary: st) (auto simp: and_then_def split: sum.splits)

lemma http_loop_append:
  "http_loop tools out_dir (xs @ ys) st = and_then (http_loop tools out_dir xs st) (http_loop tools out_dir ys)"
  by (induction xs arbitrary: st) (auto simp: and_then_def split: sum.splits)

text \<open>
  Claim C9. A git entry without a \<open>remote\<close> field and an http entry without a \<open>url\<close> field
  are skipped: the loop body returns the state it was given (no subprocess call, no change
  of the directory tree, no line added to the hook script) and raises nothing, and the whole
  loop gives the same result as over the entries without that one.
\<close>

theorem entry_without_source_skipped:
  "(remote g = None \<longrightarrow>
      git_item tools out_dir n g st = Inr st \<and>
      git_loop tools out_dir (before @ (n, g) # after) st = git_loop tools out_dir (before @ after) st) \<and>
   (url h = None \<longrightarrow>
      http_item tools out_dir n h st = Inr st \<and>
      http_loop tools out_dir (before' @ (n, h) # after') st = http_loop tools out_dir (before' @ after') st)"
proof (intro conjI impI)
  assume g: "remote g = None"
  then show i: "git_item tools out_dir n g st = Inr st" by (simp add: git_item_def)
  have "git_loop tools out_dir ((n, g) # after) = git_loop tools out_dir after"
    using g by (intro ext) (simp add: git_item_def and_then_def)
  then show "git_loop tools out_dir (before @ (n, g) # after) st = git_loop tools out_dir (before @ after) st"
    by (simp add: git_loop_append)
next
  assume h: "url h = None"
  then show "http_item tools out_dir n h st = Inr st" by (simp add: http_item_def)
  have "http_loop tools out_dir ((n, h) # after') = http_loop tools out_dir after'"
    using h by (intro ext) (simp add: http_item_def and_then_def)
  then show "http_loop tools out_dir (before' @ (n, h) # after') st = http_loop tools out_dir (before' @ after') st"
    by (simp add: http_loop_append)
qed

theorem entry_without_source_skipped_witness:
  "git_item (\<lambda>c. True) ''/tmp/env'' ''repo'' \<lparr>remote = None, ref = Some ''main''\<rparr>
      \<lparr>fs = [''/tmp/env'' \<mapsto> Dir], set_env = [], calls = []\<rparr> =
     Inr \<lparr>fs = [''/tmp/env'' \<mapsto> Dir], set_env = [], calls = []\<rparr> \<and>
   http_item (\<lambda>c. True) ''/tmp/env'' ''data''
      \<lparr>file_type = Some ''tar'', compression = Some ''gzip'', url = None\<rparr>
      \<lparr>fs = [''/tmp/env'' \<mapsto> Dir], set_env = [], calls = []\<rparr> =
     Inr \<lparr>fs = [''/tmp/env'' \<mapsto> Dir], set_env = [], calls = []\<rparr>"
  using entry_without_source_skipped [where g = "\<lparr>remote = None, ref = Some ''main''\<rparr>"
      and h = "\<lparr>file_type = Some ''tar'', compression = Some ''gzip'', url = None\<rparr>"
      and tools = "\<lambda>c. True" and out_dir = "''/tmp/env''"
      and st = "\<lparr>fs = [''/tmp/env'' \<mapsto> Dir], set_env = [], calls = []\<rparr>"]
  by simp

section \<open>Properties of the runner\<close>



lemma stop_fields:
  "exit_code (stop code how acts) = code" "ending (stop code how acts) = how"
  "unpacking (stop code how acts) = acts" "activated_in (stop code how acts) = None"
  "executed (stop code how acts) = None"
  by (simp_all add: stop_def)

lemma activate_and_run_cases:
  obtains (exits) n where "activate w (env(''PYTHONPATH'' := None)) = Exits n"
      "activate_and_run w u c acts env =
         (stop n (SourcedExit n) acts)\<lparr>activated_in := Some (env(''PYTHONPATH'' := None))\<rparr>"
  | (fails) status e where "activate w (env(''PYTHONPATH'' := None)) = Returns status e"
      "status \<noteq> 0"
      "activate_and_run w u c acts env =
         (stop 1 (Failed ActivationFailure) acts)\<lparr>activated_in := Some (env(''PYTHONPATH'' := None))\<rparr>"
  | (hook_exits) e hook n where "activate w (env(''PYTHONPATH'' := None)) = Returns 0 e"
      "poncho_set_env w = Some hook" "hook u e = Exits n"
      "activate_and_run w u c acts env =
         (stop n (SourcedExit n) acts)\<lparr>activated_in := Some (env(''PYTHONPATH'' := None))\<rparr>"
  | (runs) e e' where "activate w (env(''PYTHONPATH'' := None)) = Returns 0 e"
      "activate_and_run w u c acts env =
         \<lparr>exit_code = run_command w c e', ending = Executed, unpacking = acts,
          activated_in = Some (env(''PYTHONPATH'' := None)), executed = Some (c, e')\<rparr>"
proof (cases "activate w (env(''PYTHONPATH'' := None))")
  case (Exits n)
  show ?thesis by (rule exits [of n]) (simp_all add: activate_and_run_def Exits)
next
  case (Returns status e)
  show ?thesis
  proof (cases "status = 0")
    case False
    show ?thesis by (rule fails [of status e]) (simp_all add: activate_and_run_def Returns False)
  next
    case True
    show ?thesis
    proof (cases "poncho_set_env w")
      case None
      show ?thesis
        by (rule runs [of e e]) (simp_all add: activate_and_run_def Returns True None)
    next
      case (Some hook)
      show ?thesis
      proof (cases "hook u e")
        case (Exits n)
        show ?thesis
          by (rule hook_exits [of e hook n]) (simp_all add: activate_and_run_def Returns True Some Exits)
      next
        case r: (Returns hook_status e')
        show ?thesis
          by (rule runs [of e e']) (simp_all add: activate_and_run_def Returns True Some r)
      qed
    qed
  qed
qed

lemma runner_cases:
  obtains (stopped) code how acts where "runner w args env = stop code how acts"
      "how = Help \<and> code = 0 \<or> (\<exists>f. how = Failed f \<and> f \<noteq> ActivationFailure) \<and> code = 1"
  | (activating) u c acts e where "runner w args env = activate_and_run w u c acts e"
      "e ''PYTHONPATH'' = env ''PYTHONPATH''"
proof (cases "parse_arguments args")
  case ExitHelp
  show ?thesis by (rule stopped [of 0 Help "[]"]) (simp_all add: runner_def ExitHelp)
next
  case ExitUsage
  show ?thesis by (rule stopped [of 1 "Failed BadArguments" "[]"]) (simp_all add: runner_def ExitUsage)
next
  case (Parsed os command)
  define e2 where "e2 = (if debug os
      then (env(''ORIGINAL_PID'' \<mapsto> pid w))(''PONCHO_PACKAGE_RUN_DEBUG'' \<mapsto> ''yes'')
      else env(''ORIGINAL_PID'' \<mapsto> pid w))"
  have e2: "e2 ''PYTHONPATH'' = env ''PYTHONPATH''" by (simp add: e2_def)
  define d where "d = (if is_dir w (ENV_NAME os) then ENV_NAME os else UNPACK_TO os)"
  define u where "u = realpath w (if d = [] then mktemp_d w else d)"
  obtain status acts where f: "flock w (LOCK_WAIT os) = (status, acts)"
    by (cases "flock w (LOCK_WAIT os)")
  have r: "runner w args env =
     (if is_file w u then stop 1 (Failed BadArguments) []
      else if \<not> is_dir w (ENV_NAME os) then
        (if status \<noteq> 0 then
           (if status = 222 then stop 1 (Failed LockTimeout) acts
            else if Tar False \<in> set acts then stop 1 (Failed ExtractionFailure) acts
            else if CondaUnpack False \<in> set acts then stop 1 (Failed RelocationFailure) acts
            else stop 1 (Failed FlockFailure) acts)
         else activate_and_run w u command acts e2)
      else activate_and_run w u command [] e2)"
    by (simp only: runner_def Parsed parsed.case Let_def f prod.case u_def d_def e2_def)
  show ?thesis
  proof (cases "is_file w u")
    case True
    show ?thesis by (rule stopped [of 1 "Failed BadArguments" "[]"]) (simp_all add: r True)
  next
    case nf: False
    show ?thesis
    proof (cases "is_dir w (ENV_NAME os)")
      case True
      show ?thesis by (rule activating [of u command "[]" e2]) (simp_all add: r nf True e2)
    next
      case nd: False
      show ?thesis
      proof (cases "status = 0")
        case True
        show ?thesis by (rule activating [of u command acts e2]) (simp_all add: r nf nd True e2)
      next
        case ns: False
        show ?thesis
        proof (cases "status = 222")
          case True
          show ?thesis
            by (rule stopped [of 1 "Failed LockTimeout" acts]) (simp_all add: r nf nd True)
        next
          case n2: False
          show ?thesis
          proof (cases "Tar False \<in> set acts")
            case True
            show ?thesis
              by (rule stopped [of 1 "Failed ExtractionFailure" acts]) (simp_all add: r nf nd ns n2 True)
          next
            case nt: False
            show ?thesis
            proof (cases "CondaUnpack False \<in> set acts")
              case True
              show ?thesis
                by (rule stopped [of 1 "Failed RelocationFailure" acts])
                   (simp_all add: r nf nd ns n2 nt True)
            next
              case False
              show ?thesis
                by (rule stopped [of 1 "Failed FlockFailure" acts])
                   (simp_all add: r nf nd ns n2 nt False)
            qed
          qed
        qed
      qed
    qed
  qed
qed

lemmas run_defs = runner_def parse_arguments_def sample_world_def sample_args_def flock_def
  untar_script_def activate_and_run_def stop_def startswith_def Let_def




text \<open>
  Claim C10. Whenever a run reaches the activation, the environment handed to it has no
  \<open>PYTHONPATH\<close>; and the whole outcome of a run, with the environment the command runs
  in, is the same whether or not the caller's environment had a \<open>PYTHONPATH\<close>, whatever
  its value.
\<close>

theorem pythonpath_unset_before_activation:
  "(\<forall>a. activated_in (runner w args env) = Some a \<longrightarrow> a ''PYTHONPATH'' = None) \<and>
   runner w args (env(''PYTHONPATH'' \<mapsto> v)) = runner w args (env(''PYTHONPATH'' := None))"
proof
  show "\<forall>a. activated_in (runner w args env) = Some a \<longrightarrow> a ''PYTHONPATH'' = None"
  proof (cases rule: runner_cases [of w args env])
    case (stopped code how acts)
    then show ?thesis by (simp add: stop_fields)
  next
    case (activating u c acts e)
    show ?thesis
      by (cases rule: activate_and_run_cases [of w e u c acts])
         (auto simp: activating(1) stop_fields)
  qed
  have a: "activate_and_run w u c acts (e(''PYTHONPATH'' \<mapsto> v)) =
           activate_and_run w u c acts (e(''PYTHONPATH'' := None))" for u c acts e
    by (simp add: activate_and_run_def)
  have t: "(env(''PYTHONPATH'' \<mapsto> v))(k \<mapsto> x) = (env(k \<mapsto> x))(''PYTHONPATH'' \<mapsto> v)"
          "(env(''PYTHONPATH'' := None))(k \<mapsto> x) = (env(k \<mapsto> x))(''PYTHONPATH'' := None)"
    if "k \<noteq> ''PYTHONPATH''" for k x and env :: "string \<rightharpoonup> string"
    using that by (simp_all add: fun_upd_twist)
  show "runner w args (env(''PYTHONPATH'' \<mapsto> v)) = runner w args (env(''PYTHONPATH'' := None))"
  proof (cases "parse_arguments args")
    case (Parsed os command)
    then show ?thesis
      by (simp add: runner_def Let_def t a split: prod.splits)
  qed (simp_all add: runner_def)
qed

theorem pythonpath_unset_before_activation_witness:
  "activated_in (runner sample_world sample_args [''PYTHONPATH'' \<mapsto> ''/home/u/lib'']) =
     Some [''ORIGINAL_PID'' \<mapsto> ''4242''] \<and>
   exit_code (runner sample_world sample_args [''PYTHONPATH'' \<mapsto> ''/home/u/lib'']) = 7 \<and>
   runner sample_world sample_args [''PYTHONPATH'' \<mapsto> ''/home/u/lib''] =
     runner sample_world sample_args Map.empty"
proof -
  have a: "activated_in (runner sample_world sample_args [''PYTHONPATH'' \<mapsto> ''/home/u/lib'']) =
     Some [''ORIGINAL_PID'' \<mapsto> ''4242'']"
    by (simp add: run_defs fun_upd_twist)
  have b: "exit_code (runner sample_world sample_args [''PYTHONPATH'' \<mapsto> ''/home/u/lib'']) = 7"
    by (simp add: run_defs)
  from pythonpath_unset_before_activation [of sample_world sample_args Map.empty "''/home/u/lib''"] a b
  show ?thesis by simp
qed

section \<open>Properties of concurrent runs\<close>

text \<open>
  The steps of one process between taking and releasing the lock are the unpack script: run
  alone from \<open>AtCheckMarker\<close>, it reaches \<open>AtReleaseLock\<close> with the status, the directory
  and the actions that \<open>untar_script\<close> gives, whatever the archive.
\<close>

lemma steps_are_untar_script:
  assumes "untar_script tg ug t = (code, t', as)"
  shows "\<exists>evs. set evs \<subseteq> {Step 0} \<and>
           run we tg ug evs \<lparr>holder = Some 0, dir = t,
                              procs = [\<lparr>wait = w, at = AtCheckMarker, result = r, ran = []\<rparr>]\<rparr> =
             \<lparr>holder = Some 0, dir = t',
              procs = [\<lparr>wait = w, at = AtReleaseLock, result = code, ran = as\<rparr>]\<rparr>"
proof (cases "marker t")
  case True
  with assms show ?thesis
    by (intro exI [of _ "[Step 0]"])
       (auto simp: untar_script_def run_def step_def step_proc_def Let_def)
next
  case nm: False
  show ?thesis
  proof (cases tg)
    case False
    with assms nm show ?thesis
      by (intro exI [of _ "[Step 0, Step 0]"])
         (auto simp: untar_script_def run_def step_def step_proc_def Let_def)
  next
    case tg: True
    show ?thesis
    proof (cases ug)
      case False
      with assms nm tg show ?thesis
        by (intro exI [of _ "[Step 0, Step 0, Step 0]"])
           (auto simp: untar_script_def run_def step_def step_proc_def Let_def)
    next
      case True
      with assms nm tg show ?thesis
        by (intro exI [of _ "[Step 0, Step 0, Step 0, Step 0]"])
           (auto simp: untar_script_def run_def step_def step_proc_def Let_def)
    qed
  qed
qed

text \<open>
  When the relocation command fails, as it does for a target path with a blank in it (line
  210 of the runner names \<open>conda-unpack\<close> through the path without quotes, unlike the
  \<open>tar\<close> line before it), no marker is written and every runner that obtains the lock
  extracts the archive again.
\<close>

lemma failed_relocation_extracts_again:
  "run (\<lambda>w. None) True False
       [Step 0, Step 0, Step 0, Step 0, Step 0, Step 1, Step 1, Step 1, Step 1, Step 1]
       (init [''300'', ''300'']) =
     \<lparr>holder = None, dir = \<lparr>extracted = True, relocated = False, marker = False\<rparr>,
      procs = [\<lparr>wait = ''300'', at = Exited, result = 1, ran = [Tar True, CondaUnpack False]\<rparr>,
               \<lparr>wait = ''300'', at = Exited, result = 1, ran = [Tar True, CondaUnpack False]\<rparr>]\<rparr>"
  by (simp add: run_def step_def step_proc_def init_def Let_def)










































end
